theory Spec2Isabelle
  imports Complex_Main "HOL-Library.AList"
begin

section \<open>Data model (src/lib/schemas/itr.ts)\<close>

text \<open>
  A TypeScript \<open>number\<close> is modelled as a \<open>real\<close>: arithmetic is exact, and agrees with
  the program on every input whose intermediate values are representable. Field names
  that several objects share (\<open>id\<close>, \<open>address\<close>, \<open>hasIncome\<close>) carry the name of their
  object as a prefix, and the parameter \<open>taxableIncome\<close> of the calculator's functions is
  written \<open>income\<close>, the name being that of a field of the result.
\<close>

record Employer =
  employer_id :: string
  employerName :: string
  employerPan :: string
  grossSalary :: real
  basicSalary :: real
  hra :: real
  otherAllowances :: real
  professionalTax :: real
  tdsDeducted :: real
  fromDate :: string
  toDate :: string

datatype PropertyType = SelfOccupied | LetOut | DeemedLetOut

record Property =
  property_id :: string
  propertyType :: PropertyType
  property_address :: string
  annualValue :: real
  municipalTax :: real
  interestOnLoan :: real
  otherExpenses :: real

record SalaryIncome =
  salary_hasIncome :: bool
  employers :: "Employer list"

record HousePropertyIncome =
  house_hasIncome :: bool
  properties :: "Property list"

record CapitalGains =
  gains_hasIncome :: bool
  shortTermGains :: real
  longTermGains :: real
  exemptLongTermGains :: real

record OtherSources =
  other_hasIncome :: bool
  interestIncome :: real
  dividendIncome :: real
  otherIncome :: real

record IncomeDetails =
  salaryIncome :: SalaryIncome
  housePropertyIncome :: HousePropertyIncome
  capitalGains :: CapitalGains
  otherSources :: OtherSources

record Section80C =
  lifeInsurance :: real
  epf :: real
  ppf :: real
  elss :: real
  nsc :: real
  homeLoanPrincipal :: real
  tuitionFees :: real
  other80C :: real

record Section80D =
  healthInsuranceSelf :: real
  healthInsuranceFamily :: real
  healthInsuranceParents :: real
  preventiveHealthCheckup :: real

datatype DeductionPercentage = Percent50 | Percent100

record Donation =
  donation_id :: string
  doneeInstitution :: string
  doneeAddress :: string
  doneePan :: string
  amount :: real
  deductionPercentage :: DeductionPercentage
  qualifyingAmount :: real

record OtherDeductions =
  section80E :: real
  section80G :: "Donation list"
  section80TTA :: real
  section80U :: real

record Deductions =
  section80C :: Section80C
  section80D :: Section80D
  otherDeductions :: OtherDeductions

section \<open>TaxCalculator (src/lib/tax-calculations.ts)\<close>

record TaxCalculation =
  totalIncome :: real
  totalDeductions :: real
  taxableIncome :: real
  taxBeforeRelief :: real
  surcharge :: real
  educationCess :: real
  totalTaxLiability :: real

text \<open>The upper bound of a slab is a number or \<open>Infinity\<close>.\<close>

datatype bound = Finite real | Infinity

record slab =
  slab_min :: real
  slab_max :: bound
  slab_rate :: real

text \<open>The two tables as they are in force in the source (the ones not commented out).\<close>

definition TAX_SLABS_OLD :: "slab list" where
  "TAX_SLABS_OLD =
    [\<lparr>slab_min = 0, slab_max = Finite 250000, slab_rate = 0\<rparr>,
     \<lparr>slab_min = 250001, slab_max = Finite 500000, slab_rate = 5\<rparr>,
     \<lparr>slab_min = 500001, slab_max = Finite 1000000, slab_rate = 20\<rparr>,
     \<lparr>slab_min = 1000001, slab_max = Infinity, slab_rate = 30\<rparr>]"

definition TAX_SLABS_NEW :: "slab list" where
  "TAX_SLABS_NEW =
    [\<lparr>slab_min = 0, slab_max = Finite 300000, slab_rate = 0\<rparr>,
     \<lparr>slab_min = 300001, slab_max = Finite 600000, slab_rate = 5\<rparr>,
     \<lparr>slab_min = 600001, slab_max = Finite 900000, slab_rate = 10\<rparr>,
     \<lparr>slab_min = 900001, slab_max = Finite 1200000, slab_rate = 15\<rparr>,
     \<lparr>slab_min = 1200001, slab_max = Finite 1500000, slab_rate = 20\<rparr>,
     \<lparr>slab_min = 1500001, slab_max = Infinity, slab_rate = 30\<rparr>]"

text \<open>
  \<open>Math.min(taxableIncome - slab.min, slab.max - slab.min)\<close>: with \<open>slab.max\<close> infinite
  the second argument is \<open>Infinity\<close> and the minimum is the first.
\<close>

definition taxableAmountInSlab :: "real \<Rightarrow> slab \<Rightarrow> real" where
  "taxableAmountInSlab income s =
     (case slab_max s of
        Infinity \<Rightarrow> income - slab_min s
      | Finite m \<Rightarrow> min (income - slab_min s) (m - slab_min s))"

text \<open>One turn of the loop over the slabs in \<open>calculateTax\<close>.\<close>

definition slab_step :: "real \<Rightarrow> real \<Rightarrow> slab \<Rightarrow> real" where
  "slab_step income tax s =
     (if income > slab_min s
      then tax + (taxableAmountInSlab income s * slab_rate s) / 100
      else tax)"

definition calculateTax :: "real \<Rightarrow> bool \<Rightarrow> real" where
  "calculateTax income useNewRegime =
     (let slabs = (if useNewRegime then TAX_SLABS_NEW else TAX_SLABS_OLD)
      in foldl (slab_step income) 0 slabs)"

definition calculateTotalIncome :: "IncomeDetails \<Rightarrow> real" where
  "calculateTotalIncome incomeDetails =
     (let totalIncome = 0;
          totalIncome =
            (if salary_hasIncome (salaryIncome incomeDetails)
             then foldl (\<lambda>t employer. t + grossSalary employer) totalIncome
                    (employers (salaryIncome incomeDetails))
             else totalIncome);
          totalIncome =
            (if house_hasIncome (housePropertyIncome incomeDetails)
             then foldl (\<lambda>t property.
                      let netIncome = annualValue property - municipalTax property
                            - interestOnLoan property - otherExpenses property
                      in t + max netIncome 0) totalIncome
                    (properties (housePropertyIncome incomeDetails))
             else totalIncome);
          totalIncome =
            (if gains_hasIncome (capitalGains incomeDetails)
             then totalIncome + shortTermGains (capitalGains incomeDetails)
                    + longTermGains (capitalGains incomeDetails)
             else totalIncome);
          totalIncome =
            (if other_hasIncome (otherSources incomeDetails)
             then totalIncome + interestIncome (otherSources incomeDetails)
                    + dividendIncome (otherSources incomeDetails)
                    + otherIncome (otherSources incomeDetails)
             else totalIncome)
      in totalIncome)"

text \<open>\<open>Object.values\<close> of the two deduction objects: the fields in declaration order.\<close>

definition values80C :: "Section80C \<Rightarrow> real list" where
  "values80C c = [lifeInsurance c, epf c, ppf c, elss c, nsc c,
                  homeLoanPrincipal c, tuitionFees c, other80C c]"

definition values80D :: "Section80D \<Rightarrow> real list" where
  "values80D d = [healthInsuranceSelf d, healthInsuranceFamily d,
                  healthInsuranceParents d, preventiveHealthCheckup d]"

definition calculateTotalDeductions :: "Deductions \<Rightarrow> real" where
  "calculateTotalDeductions deductions =
     (let totalDeductions = 0;
          section80CTotal = foldl (\<lambda>sum v. sum + v) 0 (values80C (section80C deductions));
          totalDeductions = totalDeductions + min section80CTotal 150000;
          section80DTotal = foldl (\<lambda>sum v. sum + v) 0 (values80D (section80D deductions));
          totalDeductions = totalDeductions + section80DTotal;
          totalDeductions = totalDeductions + section80E (otherDeductions deductions);
          totalDeductions = totalDeductions + section80TTA (otherDeductions deductions);
          totalDeductions = totalDeductions + section80U (otherDeductions deductions)
      in foldl (\<lambda>t donation. t + qualifyingAmount donation) totalDeductions
           (section80G (otherDeductions deductions)))"

definition calculateSurcharge :: "real \<Rightarrow> real \<Rightarrow> real" where
  "calculateSurcharge income baseTax =
     (if income \<le> 5000000 then 0
      else if income \<le> 10000000 then baseTax * (10 / 100)
      else if income \<le> 20000000 then baseTax * (15 / 100)
      else if income \<le> 50000000 then baseTax * (25 / 100)
      else baseTax * (37 / 100))"

definition calculateEducationCess :: "real \<Rightarrow> real" where
  "calculateEducationCess taxAndSurcharge = taxAndSurcharge * (4 / 100)"

definition calculateCompleteTax :: "IncomeDetails \<Rightarrow> Deductions \<Rightarrow> bool \<Rightarrow> TaxCalculation" where
  "calculateCompleteTax incomeDetails deductions useNewRegime =
     (let totalIncome = calculateTotalIncome incomeDetails;
          totalDeductions = (if useNewRegime then 0 else calculateTotalDeductions deductions);
          taxableIncome = max (totalIncome - totalDeductions) 0;
          taxBeforeRelief = calculateTax taxableIncome useNewRegime;
          surcharge = calculateSurcharge taxableIncome taxBeforeRelief;
          taxAfterSurcharge = taxBeforeRelief + surcharge;
          educationCess = calculateEducationCess taxAfterSurcharge;
          totalTaxLiability = taxAfterSurcharge + educationCess
      in \<lparr>totalIncome = totalIncome,
          totalDeductions = totalDeductions,
          taxableIncome = taxableIncome,
          taxBeforeRelief = taxBeforeRelief,
          surcharge = surcharge,
          educationCess = educationCess,
          totalTaxLiability = totalTaxLiability\<rparr>)"

text \<open>A slab is well formed when its rate is not negative and its bounds are in order.\<close>

definition slab_ok :: "slab \<Rightarrow> bool" where
  "slab_ok s =
     (0 \<le> slab_rate s \<and> (case slab_max s of Infinity \<Rightarrow> True | Finite m \<Rightarrow> slab_min s \<le> m))"

section \<open>ITRStorage (src/lib/tax-calculations.ts, the storage module)\<close>

subsection \<open>Values that JSON can carry\<close>

text \<open>
  What \<open>JSON.parse\<close> can return and what the store keeps. An object is the list of its
  properties in order; no JavaScript object has two properties with one key.
\<close>

datatype json =
    JNull
  | JBool bool
  | JNum real
  | JStr string
  | JArr "json list"
  | JObj "(string \<times> json) list"

text \<open>\<open>!!v\<close>: the values JavaScript takes for false are \<open>null\<close>, \<open>false\<close>, 0 and the empty string.\<close>

fun truthy :: "json \<Rightarrow> bool" where
  "truthy JNull = False"
| "truthy (JBool b) = b"
| "truthy (JNum n) = (n \<noteq> 0)"
| "truthy (JStr s) = (s \<noteq> [])"
| "truthy (JArr xs) = True"
| "truthy (JObj kvs) = True"

definition digit_char :: "nat \<Rightarrow> char" where
  "digit_char n = ''0123456789'' ! n"

function show_nat :: "nat \<Rightarrow> string" where
  "show_nat n =
     (if n < 10 then [digit_char n] else show_nat (n div 10) @ [digit_char (n mod 10)])"
  by pat_completeness auto
termination
  by (relation "measure id") auto

fun index_props :: "nat \<Rightarrow> json list \<Rightarrow> (string \<times> json) list" where
  "index_props i [] = []"
| "index_props i (x # xs) = (show_nat i, x) # index_props (Suc i) xs"

text \<open>
  The own enumerable properties that an object spread \<open>{...v}\<close> copies: the properties of
  an object, the indexed elements of an array, the indexed characters of a string, and
  nothing for \<open>null\<close>, a boolean or a number.
\<close>

fun ownProps :: "json \<Rightarrow> (string \<times> json) list" where
  "ownProps (JObj kvs) = kvs"
| "ownProps (JArr xs) = index_props 0 xs"
| "ownProps (JStr cs) = index_props 0 (map (\<lambda>c. JStr [c]) cs)"
| "ownProps JNull = []"
| "ownProps (JBool b) = []"
| "ownProps (JNum n) = []"

text \<open>
  Reading a property \<open>v.k\<close> of a value other than \<open>null\<close>, for a key \<open>k\<close> that no
  prototype defines (the section names are such keys); \<open>None\<close> is \<open>undefined\<close>.
\<close>

definition getProp :: "json \<Rightarrow> string \<Rightarrow> json option" where
  "getProp v k = map_of (ownProps v) k"

text \<open>Setting one property: an existing key keeps its place, a new one goes last.\<close>

definition assign :: "(string \<times> json) list \<Rightarrow> string \<times> json \<Rightarrow> (string \<times> json) list" where
  "assign obj kv = AList.update (fst kv) (snd kv) obj"

text \<open>\<open>{ ...a, ...b }\<close>: the properties of \<open>a\<close>, then those of \<open>b\<close> set over them.\<close>

definition spread :: "json \<Rightarrow> json \<Rightarrow> json" where
  "spread a b = JObj (foldl assign (ownProps a) (ownProps b))"

subsection \<open>The host: JSON, localStorage, timers\<close>

text \<open>
  The functions of the platform are parameters. \<open>JSON_parse\<close> returns \<open>None\<close> where
  \<open>JSON.parse\<close> throws a SyntaxError; \<open>setItem_accepts\<close> is false on the texts for which
  \<open>localStorage.setItem\<close> throws (quota exceeded).
\<close>

record host =
  JSON_parse :: "string \<Rightarrow> json option"
  JSON_stringify :: "json \<Rightarrow> string"
  setItem_accepts :: "string \<Rightarrow> bool"

text \<open>
  The state the store works on: the items of \<open>localStorage\<close>, the pending timeouts of the
  event loop (handle, due time in milliseconds, and the partial snapshot that the callback
  of \<open>autoSave\<close> closes over), the clock, the two fields of the \<open>ITRStorage\<close> instance, and
  the trace of the calls made to the subscribed callbacks (callback, argument). A callback
  is known by a number and is taken to return normally.
\<close>

record world =
  localStorage :: "string \<Rightarrow> string option"
  timers :: "(nat \<times> nat \<times> json) list"
  clock :: nat
  nextHandle :: nat
  autoSaveTimer :: "nat option"
  listeners :: "nat list"
  notified :: "(nat \<times> json) list"

definition STORAGE_KEY :: string where
  "STORAGE_KEY = ''itr-data''"

definition AUTO_SAVE_INTERVAL :: nat where
  "AUTO_SAVE_INTERVAL = 5000"

definition notifyListeners :: "world \<Rightarrow> json \<Rightarrow> world" where
  "notifyListeners s data =
     s\<lparr>notified := notified s @ map (\<lambda>callback. (callback, data)) (listeners s)\<rparr>"

text \<open>\<open>load\<close>: an absent item, an empty text and a text that does not parse all give \<open>{}\<close>.\<close>

definition load :: "host \<Rightarrow> world \<Rightarrow> json" where
  "load h s =
     (case localStorage s STORAGE_KEY of
        None \<Rightarrow> JObj []
      | Some data \<Rightarrow>
          if data = [] then JObj []
          else (case JSON_parse h data of None \<Rightarrow> JObj [] | Some v \<Rightarrow> v))"

text \<open>
  \<open>save\<close>: the write comes before the notification, both inside the \<open>try\<close>; when
  \<open>setItem\<close> throws, the \<open>catch\<close> logs the error and nothing else happens.
\<close>

definition save :: "host \<Rightarrow> world \<Rightarrow> json \<Rightarrow> world" where
  "save h s data =
     (let existingData = load h s;
          mergedData = spread existingData data;
          text = JSON_stringify h mergedData
      in if setItem_accepts h text
         then notifyListeners (s\<lparr>localStorage := (localStorage s)(STORAGE_KEY \<mapsto> text)\<rparr>)
                mergedData
         else s)"

definition clearTimeout :: "nat \<Rightarrow> world \<Rightarrow> world" where
  "clearTimeout handle s = s\<lparr>timers := filter (\<lambda>t. fst t \<noteq> handle) (timers s)\<rparr>"

definition setTimeout :: "json \<Rightarrow> nat \<Rightarrow> world \<Rightarrow> nat \<times> world" where
  "setTimeout data delay s =
     (nextHandle s,
      s\<lparr>timers := timers s @ [(nextHandle s, clock s + delay, data)],
        nextHandle := Suc (nextHandle s)\<rparr>)"

definition autoSave :: "world \<Rightarrow> json \<Rightarrow> world" where
  "autoSave s data =
     (let s1 = (case autoSaveTimer s of Some handle \<Rightarrow> clearTimeout handle s | None \<Rightarrow> s);
          (handle, s2) = setTimeout data AUTO_SAVE_INTERVAL s1
      in s2\<lparr>autoSaveTimer := Some handle\<rparr>)"

text \<open>
  The passing of \<open>d\<close> milliseconds with no call from the application: the event loop runs
  the callbacks of the timeouts that are due, earliest first, and each callback is
  \<open>this.save(data)\<close>.
\<close>

definition is_due :: "nat \<Rightarrow> nat \<times> nat \<times> json \<Rightarrow> bool" where
  "is_due t tm = (fst (snd tm) \<le> t)"

definition elapse :: "host \<Rightarrow> nat \<Rightarrow> world \<Rightarrow> world" where
  "elapse h d s =
     (let t = clock s + d;
          due = sort_key (\<lambda>tm. fst (snd tm)) (filter (is_due t) (timers s));
          s1 = s\<lparr>timers := filter (\<lambda>tm. \<not> is_due t tm) (timers s), clock := t\<rparr>
      in foldl (\<lambda>w tm. save h w (snd (snd tm))) s1 due)"

definition clear :: "world \<Rightarrow> world" where
  "clear s = notifyListeners (s\<lparr>localStorage := (localStorage s)(STORAGE_KEY := None)\<rparr>) (JObj [])"

text \<open>\<open>subscribe\<close> adds to a Set; the function it returns is \<open>unsubscribe\<close>.\<close>

definition subscribe :: "world \<Rightarrow> nat \<Rightarrow> world" where
  "subscribe s callback =
     (if callback \<in> set (listeners s) then s
      else s\<lparr>listeners := listeners s @ [callback]\<rparr>)"

definition unsubscribe :: "world \<Rightarrow> nat \<Rightarrow> world" where
  "unsubscribe s callback = s\<lparr>listeners := removeAll callback (listeners s)\<rparr>"

definition import :: "host \<Rightarrow> world \<Rightarrow> string \<Rightarrow> world \<times> bool" where
  "import h s jsonData =
     (case JSON_parse h jsonData of
        None \<Rightarrow> (s, False)
      | Some data \<Rightarrow> (save h s data, True))"

datatype error = TypeError

record CompletionStatus =
  personalDetails :: bool
  incomeDetails :: bool
  deductions :: bool
  taxSummary :: bool

text \<open>\<open>!!data.k\<close> for a \<open>data\<close> that is not \<open>null\<close>.\<close>

definition flag :: "json \<Rightarrow> string \<Rightarrow> bool" where
  "flag data k = (case getProp data k of None \<Rightarrow> False | Some v \<Rightarrow> truthy v)"

text \<open>Reading a property of \<open>null\<close> throws a TypeError, which nothing here catches.\<close>

definition getCompletionStatus :: "host \<Rightarrow> world \<Rightarrow> error + CompletionStatus" where
  "getCompletionStatus h s =
     (let data = load h s
      in if data = JNull then Inl TypeError
         else Inr \<lparr>personalDetails = flag data ''personalDetails'',
                   incomeDetails = flag data ''incomeDetails'',
                   deductions = flag data ''deductions'',
                   taxSummary = flag data ''taxSummary''\<rparr>)"

text \<open>
  A host stores a value faithfully when it accepts its text and parses the text back to
  the value; the text of a value is never empty.
\<close>

definition roundtrips :: "host \<Rightarrow> json \<Rightarrow> bool" where
  "roundtrips h v =
     (setItem_accepts h (JSON_stringify h v) \<and> JSON_stringify h v \<noteq> []
      \<and> JSON_parse h (JSON_stringify h v) = Some v)"

text \<open>Every pending timeout is the one the instance remembers.\<close>

definition timers_ok :: "world \<Rightarrow> bool" where
  "timers_ok s = list_all (\<lambda>tm. autoSaveTimer s = Some (fst tm)) (timers s)"

section \<open>Sample inputs\<close>

subsection \<open>Incomes and deductions\<close>

definition example_employer :: Employer where
  "example_employer =
     \<lparr>employer_id = ''1'', employerName = ''Acme'', employerPan = ''ABCDE1234F'',
      grossSalary = 1200000, basicSalary = 0, hra = 0, otherAllowances = 0,
      professionalTax = 0, tdsDeducted = 0, fromDate = ''2023-04-01'', toDate = ''2024-03-31''\<rparr>"

definition example_income :: IncomeDetails where
  "example_income =
     \<lparr>salaryIncome = \<lparr>salary_hasIncome = True, employers = [example_employer]\<rparr>,
      housePropertyIncome = \<lparr>house_hasIncome = False, properties = []\<rparr>,
      capitalGains = \<lparr>gains_hasIncome = False, shortTermGains = 0, longTermGains = 0,
                      exemptLongTermGains = 0\<rparr>,
      otherSources = \<lparr>other_hasIncome = False, interestIncome = 0, dividendIncome = 0,
                      otherIncome = 0\<rparr>\<rparr>"

definition zero_deductions :: Deductions where
  "zero_deductions =
     \<lparr>section80C = \<lparr>lifeInsurance = 0, epf = 0, ppf = 0, elss = 0, nsc = 0,
                    homeLoanPrincipal = 0, tuitionFees = 0, other80C = 0\<rparr>,
      section80D = \<lparr>healthInsuranceSelf = 0, healthInsuranceFamily = 0,
                    healthInsuranceParents = 0, preventiveHealthCheckup = 0\<rparr>,
      otherDeductions = \<lparr>section80E = 0, section80G = [], section80TTA = 0, section80U = 0\<rparr>\<rparr>"

text \<open>A filer with a small pension-like income and large deductions.\<close>

definition small_income :: IncomeDetails where
  "small_income =
     example_income\<lparr>salaryIncome :=
       \<lparr>salary_hasIncome = True, employers = [example_employer\<lparr>grossSalary := 100000\<rparr>]\<rparr>\<rparr>"

definition large_deductions :: Deductions where
  "large_deductions =
     zero_deductions\<lparr>section80C := section80C zero_deductions\<lparr>ppf := 150000, elss := 90000\<rparr>\<rparr>"

subsection \<open>A small host and sample snapshots\<close>

text \<open>
  A host that knows a fixed table of documents: it prints a value of the table as its
  JSON text (and any other value as \<open>null\<close>), parses the texts of the table and no other
  text, and accepts every write.
\<close>

definition asha :: json where
  "asha = JObj [(''firstName'', JStr ''Asha'')]"

definition ravi :: json where
  "ravi = JObj [(''firstName'', JStr ''Ravi'')]"

definition empty_text :: string where
  \<open>empty_text = ''{}''\<close>

definition asha_text :: string where
  \<open>asha_text = ''{"personalDetails":{"firstName":"Asha"}}''\<close>

definition ravi_text :: string where
  \<open>ravi_text = ''{"personalDetails":{"firstName":"Ravi"}}''\<close>

definition both_text :: string where
  \<open>both_text = ''{"personalDetails":{"firstName":"Asha"},"incomeDetails":{}}''\<close>

definition null_text :: string where
  \<open>null_text = ''{"personalDetails":null}''\<close>

definition toy_docs :: "(string \<times> json) list" where
  "toy_docs =
     [(empty_text, JObj []),
      (asha_text, JObj [(''personalDetails'', asha)]),
      (ravi_text, JObj [(''personalDetails'', ravi)]),
      (both_text, JObj [(''personalDetails'', asha), (''incomeDetails'', JObj [])]),
      (null_text, JObj [(''personalDetails'', JNull)])]"

definition toy_stringify :: "json \<Rightarrow> string" where
  "toy_stringify v =
     (case find (\<lambda>doc. snd doc = v) toy_docs of Some doc \<Rightarrow> fst doc | None \<Rightarrow> ''null'')"

definition toy_host :: host where
  "toy_host = \<lparr>JSON_parse = map_of toy_docs, JSON_stringify = toy_stringify,
               setItem_accepts = (\<lambda>text. True)\<rparr>"

text \<open>The same host with a store that has no room left.\<close>

definition full_host :: host where
  "full_host = toy_host\<lparr>setItem_accepts := (\<lambda>text. False)\<rparr>"

definition empty_world :: world where
  "empty_world = \<lparr>localStorage = Map.empty, timers = [], clock = 0, nextHandle = 1,
                  autoSaveTimer = None, listeners = [], notified = []\<rparr>"

text \<open>One subscriber; and the store after the backup text \<open>null_text\<close> was imported.\<close>

definition watched_world :: world where
  "watched_world = subscribe empty_world 1"

definition null_world :: world where
  "null_world = fst (import toy_host empty_world null_text)"

section \<open>Properties of the calculator\<close>

subsection \<open>Loops as sums\<close>

lemma foldl_qualifyingAmount:
  "foldl (\<lambda>t donation. t + qualifyingAmount donation) a ds
     = a + sum_list (map qualifyingAmount ds)"
  by (induction ds arbitrary: a) simp_all

lemma foldl_slab_step:
  "foldl (slab_step x) a slabs = a + sum_list (map (slab_step x 0) slabs)"
proof (induction slabs arbitrary: a)
  case Nil
  show ?case by simp
next
  case (Cons s slabs)
  have "slab_step x a s = a + slab_step x 0 s"
    by (simp add: slab_step_def)
  with Cons.IH [of "slab_step x a s"] show ?case
    by simp
qed

subsection \<open>The worked example\<close>

lemma example_totalIncome: "calculateTotalIncome example_income = 1200000"
  by (simp add: calculateTotalIncome_def example_income_def example_employer_def)

lemma zero_totalDeductions: "calculateTotalDeductions zero_deductions = 0"
  by (simp add: calculateTotalDeductions_def zero_deductions_def values80C_def values80D_def)

lemma calculateTax_example: "calculateTax 1200000 False = 17249945 / 100"
  by (simp add: calculateTax_def TAX_SLABS_OLD_def slab_step_def taxableAmountInSlab_def)

text \<open>
  C1. One employer with a gross salary of 1,200,000, every other income disabled, no
  deductions, old regime. The taxable income is 1,200,000 and the surcharge is 0, but the
  slabs in force start at 250,001, 500,001 and 1,000,001, so each taxes one unit less than
  its band: 5% of 249,999, 20% of 499,999 and 30% of 199,999. The tax before relief is
  172,499.45 (not 172,500), the cess 6,899.978 (not 6,900) and the total liability
  179,399.428 (not 179,400).
\<close>

theorem calculateCompleteTax_example:
  "calculateCompleteTax example_income zero_deductions False =
     \<lparr>totalIncome = 1200000, totalDeductions = 0, taxableIncome = 1200000,
      taxBeforeRelief = 17249945 / 100, surcharge = 0, educationCess = 6899978 / 1000,
      totalTaxLiability = 179399428 / 1000\<rparr>"
  by (simp add: calculateCompleteTax_def example_totalIncome zero_totalDeductions
      calculateTax_example calculateSurcharge_def calculateEducationCess_def)

subsection \<open>Deductions\<close>

text \<open>
  C3. Under the new regime the result's \<open>totalDeductions\<close> is 0, whatever the income and
  whatever the deductions passed in.
\<close>

theorem new_regime_no_deductions:
  "totalDeductions (calculateCompleteTax income ded True) = 0"
  by (simp add: calculateCompleteTax_def Let_def)

text \<open>
  C4. The total of the deductions is the sum of the eight 80C fields, cut at 150,000, plus
  the four 80D fields, the 80E, 80TTA and 80U fields and the qualifying amounts of the
  donations; the 80C part never exceeds 150,000, also when its fields sum above it.
\<close>

theorem calculateTotalDeductions_80C_capped:
  "calculateTotalDeductions d =
     min (lifeInsurance (section80C d) + epf (section80C d) + ppf (section80C d)
          + elss (section80C d) + nsc (section80C d) + homeLoanPrincipal (section80C d)
          + tuitionFees (section80C d) + other80C (section80C d)) 150000
     + (healthInsuranceSelf (section80D d) + healthInsuranceFamily (section80D d)
        + healthInsuranceParents (section80D d) + preventiveHealthCheckup (section80D d))
     + section80E (otherDeductions d) + section80TTA (otherDeductions d)
     + section80U (otherDeductions d)
     + sum_list (map qualifyingAmount (section80G (otherDeductions d)))
   \<and> min (lifeInsurance (section80C d) + epf (section80C d) + ppf (section80C d)
          + elss (section80C d) + nsc (section80C d) + homeLoanPrincipal (section80C d)
          + tuitionFees (section80C d) + other80C (section80C d)) 150000 \<le> 150000"
  by (simp add: calculateTotalDeductions_def Let_def foldl_qualifyingAmount values80C_def
      values80D_def add.assoc)

subsection \<open>Monotonicity and continuity of the slab tax\<close>

text \<open>
  On a well-formed slab the amount taxed is the income above the lower bound, clamped
  between 0 and the width of the slab.
\<close>

lemma slab_step_clamp:
  assumes "slab_ok s"
  shows "slab_step x 0 s =
     (case slab_max s of
        Infinity \<Rightarrow> max 0 (x - slab_min s) * slab_rate s / 100
      | Finite m \<Rightarrow> max 0 (min (x - slab_min s) (m - slab_min s)) * slab_rate s / 100)"
  using assms
  by (cases "slab_max s") (auto simp: slab_ok_def slab_step_def taxableAmountInSlab_def)

lemma slab_step_mono:
  assumes "slab_ok s" and "x \<le> y"
  shows "slab_step x 0 s \<le> slab_step y 0 s"
proof -
  have r: "0 \<le> slab_rate s / 100"
    using assms(1) by (simp add: slab_ok_def)
  show ?thesis
  proof (cases "slab_max s")
    case (Finite m)
    have "max 0 (min (x - slab_min s) (m - slab_min s))
        \<le> max 0 (min (y - slab_min s) (m - slab_min s))"
      using assms(2) by auto
    then have "max 0 (min (x - slab_min s) (m - slab_min s)) * (slab_rate s / 100)
        \<le> max 0 (min (y - slab_min s) (m - slab_min s)) * (slab_rate s / 100)"
      using r by (rule mult_right_mono)
    then show ?thesis
      by (simp add: slab_step_clamp [OF assms(1)] Finite)
  next
    case Infinity
    have "max 0 (x - slab_min s) \<le> max 0 (y - slab_min s)"
      using assms(2) by auto
    then have "max 0 (x - slab_min s) * (slab_rate s / 100)
        \<le> max 0 (y - slab_min s) * (slab_rate s / 100)"
      using r by (rule mult_right_mono)
    then show ?thesis
      by (simp add: slab_step_clamp [OF assms(1)] Infinity)
  qed
qed

lemma slab_step_isCont:
  assumes "slab_ok s"
  shows "isCont (\<lambda>x. slab_step x 0 s) b"
proof (cases "slab_max s")
  case (Finite m)
  have "isCont (\<lambda>x. max 0 (min (x - slab_min s) (m - slab_min s)) * slab_rate s / 100) b"
    by (intro continuous_intros) simp
  then show ?thesis
    by (simp add: slab_step_clamp [OF assms] Finite)
next
  case Infinity
  have "isCont (\<lambda>x. max 0 (x - slab_min s) * slab_rate s / 100) b"
    by (intro continuous_intros) simp
  then show ?thesis
    by (simp add: slab_step_clamp [OF assms] Infinity)
qed

lemma slabs_mono:
  assumes "list_all slab_ok slabs" and "x \<le> y"
  shows "foldl (slab_step x) 0 slabs \<le> foldl (slab_step y) 0 slabs"
proof -
  have "sum_list (map (slab_step x 0) slabs) \<le> sum_list (map (slab_step y 0) slabs)"
    using assms by (intro sum_list_mono) (simp add: list_all_iff slab_step_mono)
  then show ?thesis
    by (simp add: foldl_slab_step)
qed

lemma slabs_isCont:
  assumes "list_all slab_ok slabs"
  shows "isCont (\<lambda>x. foldl (slab_step x) 0 slabs) b"
proof -
  have "isCont (\<lambda>x. sum_list (map (slab_step x 0) slabs)) b"
    using assms
  proof (induction slabs)
    case Nil
    show ?case by simp
  next
    case (Cons s slabs)
    then have "isCont (\<lambda>x. slab_step x 0 s) b"
      and "isCont (\<lambda>x. sum_list (map (slab_step x 0) slabs)) b"
      by (simp_all add: slab_step_isCont)
    then have "isCont (\<lambda>x. slab_step x 0 s + sum_list (map (slab_step x 0) slabs)) b"
      by (rule continuous_add)
    then show ?case by simp
  qed
  then show ?thesis
    by (simp add: foldl_slab_step)
qed

lemma TAX_SLABS_OLD_ok: "list_all slab_ok TAX_SLABS_OLD"
  by (simp add: TAX_SLABS_OLD_def slab_ok_def)

lemma TAX_SLABS_NEW_ok: "list_all slab_ok TAX_SLABS_NEW"
  by (simp add: TAX_SLABS_NEW_def slab_ok_def)

text \<open>
  C5. In both regimes \<open>calculateTax\<close> does not decrease when the taxable income grows,
  and it is continuous at every income \<open>b\<close>, the bracket boundaries among them: the tax
  has no jump anywhere, only its slope changes.
\<close>

theorem calculateTax_mono_continuous:
  "(x \<le> y \<longrightarrow> calculateTax x useNewRegime \<le> calculateTax y useNewRegime)
   \<and> isCont (\<lambda>t. calculateTax t useNewRegime) b"
  by (cases useNewRegime)
     (simp_all add: calculateTax_def slabs_mono slabs_isCont TAX_SLABS_OLD_ok TAX_SLABS_NEW_ok)

theorem calculateTax_mono_continuous_witness:
  "(500000::real) \<le> 500001
   \<and> calculateTax 500000 False \<le> calculateTax 500001 False
   \<and> isCont (\<lambda>t. calculateTax t False) 500001"
  using calculateTax_mono_continuous [of 500000 500001 False 500001] by simp

subsection \<open>Taxable income is never negative\<close>

text \<open>
  C10. The taxable income of the result is the total income less the total deductions,
  floored at 0. When, under the old regime, the deductions exceed the income, the taxable
  income, the tax before relief, the surcharge, the cess and the total liability are all 0.
\<close>

theorem taxableIncome_floor:
  "(let r = calculateCompleteTax income ded useNewRegime
    in totalIncome r = calculateTotalIncome income
       \<and> totalDeductions r = (if useNewRegime then 0 else calculateTotalDeductions ded)
       \<and> taxableIncome r = max (totalIncome r - totalDeductions r) 0
       \<and> (\<not> useNewRegime
            \<and> calculateTotalIncome income < calculateTotalDeductions ded
          \<longrightarrow> taxableIncome r = 0 \<and> taxBeforeRelief r = 0 \<and> surcharge r = 0
              \<and> educationCess r = 0 \<and> totalTaxLiability r = 0))"
  by (simp add: calculateCompleteTax_def Let_def calculateTax_def TAX_SLABS_OLD_def
      slab_step_def calculateSurcharge_def calculateEducationCess_def)

lemma small_totalIncome: "calculateTotalIncome small_income = 100000"
  by (simp add: calculateTotalIncome_def small_income_def example_income_def
      example_employer_def)

lemma large_totalDeductions: "calculateTotalDeductions large_deductions = 150000"
  by (simp add: calculateTotalDeductions_def large_deductions_def zero_deductions_def
      values80C_def values80D_def)

theorem taxableIncome_floor_witness:
  "calculateTotalIncome small_income < calculateTotalDeductions large_deductions
   \<and> calculateCompleteTax small_income large_deductions False =
       \<lparr>totalIncome = 100000, totalDeductions = 150000, taxableIncome = 0,
        taxBeforeRelief = 0, surcharge = 0, educationCess = 0, totalTaxLiability = 0\<rparr>"
proof -
  have lt: "calculateTotalIncome small_income < calculateTotalDeductions large_deductions"
    by (simp add: small_totalIncome large_totalDeductions)
  from taxableIncome_floor [of small_income large_deductions False] lt
  have "totalIncome (calculateCompleteTax small_income large_deductions False) = 100000"
    and "totalDeductions (calculateCompleteTax small_income large_deductions False) = 150000"
    and "taxableIncome (calculateCompleteTax small_income large_deductions False) = 0"
    and "taxBeforeRelief (calculateCompleteTax small_income large_deductions False) = 0"
    and "surcharge (calculateCompleteTax small_income large_deductions False) = 0"
    and "educationCess (calculateCompleteTax small_income large_deductions False) = 0"
    and "totalTaxLiability (calculateCompleteTax small_income large_deductions False) = 0"
    by (simp_all add: Let_def small_totalIncome large_totalDeductions)
  then have "calculateCompleteTax small_income large_deductions False =
       \<lparr>totalIncome = 100000, totalDeductions = 150000, taxableIncome = 0,
        taxBeforeRelief = 0, surcharge = 0, educationCess = 0, totalTaxLiability = 0\<rparr>"
    by (cases "calculateCompleteTax small_income large_deductions False") simp
  with lt show ?thesis by simp
qed

section \<open>Properties of the store\<close>

subsection \<open>Merging\<close>

lemma map_of_assign: "map_of (assign obj (a, x)) k = (if k = a then Some x else map_of obj k)"
  by (simp add: assign_def update_conv')

lemma getProp_spread_single:
  "getProp (spread v (JObj [(a, x)])) k = (if k = a then Some x else getProp v k)"
  by (simp add: getProp_def spread_def map_of_assign)

lemma save_accepted:
  assumes "setItem_accepts h (JSON_stringify h (spread (load h s) data))"
  shows "save h s data =
     notifyListeners
       (s\<lparr>localStorage := (localStorage s)(STORAGE_KEY \<mapsto> JSON_stringify h (spread (load h s) data))\<rparr>)
       (spread (load h s) data)"
  using assms by (simp add: save_def Let_def)

lemma load_stored:
  assumes "localStorage s STORAGE_KEY = Some t" and "t \<noteq> []" and "JSON_parse h t = Some v"
  shows "load h s = v"
  using assms by (simp add: load_def)

lemma load_save:
  assumes "roundtrips h (spread (load h s) data)"
  shows "load h (save h s data) = spread (load h s) data"
proof -
  from assms have acc: "setItem_accepts h (JSON_stringify h (spread (load h s) data))"
    and ne: "JSON_stringify h (spread (load h s) data) \<noteq> []"
    and rt: "JSON_parse h (JSON_stringify h (spread (load h s) data)) = Some (spread (load h s) data)"
    by (simp_all add: roundtrips_def)
  have "localStorage (save h s data) STORAGE_KEY
      = Some (JSON_stringify h (spread (load h s) data))"
    by (simp add: save_accepted [OF acc] notifyListeners_def)
  then show ?thesis
    using ne rt by (rule load_stored)
qed

text \<open>
  C2. On a host that stores the two merged documents faithfully: after \<open>save({a: x})\<close> and
  \<open>save({b: y})\<close> with two different sections, the persisted snapshot has \<open>x\<close> under \<open>a\<close> and
  \<open>y\<close> under \<open>b\<close>; after \<open>save({a: x})\<close> and \<open>save({a: x'})\<close> it has \<open>x'\<close> under \<open>a\<close>, whole.
  In both cases every other section is what it was before the two calls.
\<close>

theorem save_shallow_merge:
  "(a \<noteq> b
      \<and> roundtrips h (spread (load h s) (JObj [(a, x)]))
      \<and> roundtrips h (spread (spread (load h s) (JObj [(a, x)])) (JObj [(b, y)]))
    \<longrightarrow> (let s2 = save h (save h s (JObj [(a, x)])) (JObj [(b, y)])
         in getProp (load h s2) a = Some x \<and> getProp (load h s2) b = Some y
            \<and> (\<forall>k. k \<noteq> a \<and> k \<noteq> b \<longrightarrow> getProp (load h s2) k = getProp (load h s) k)))
   \<and> (roundtrips h (spread (load h s) (JObj [(a, x)]))
      \<and> roundtrips h (spread (spread (load h s) (JObj [(a, x)])) (JObj [(a, x')]))
    \<longrightarrow> (let s2 = save h (save h s (JObj [(a, x)])) (JObj [(a, x')])
         in getProp (load h s2) a = Some x'
            \<and> (\<forall>k. k \<noteq> a \<longrightarrow> getProp (load h s2) k = getProp (load h s) k)))"
proof (intro conjI impI)
  assume A: "a \<noteq> b
      \<and> roundtrips h (spread (load h s) (JObj [(a, x)]))
      \<and> roundtrips h (spread (spread (load h s) (JObj [(a, x)])) (JObj [(b, y)]))"
  then have 1: "load h (save h s (JObj [(a, x)])) = spread (load h s) (JObj [(a, x)])"
    by (simp add: load_save)
  with A have 2: "load h (save h (save h s (JObj [(a, x)])) (JObj [(b, y)]))
      = spread (spread (load h s) (JObj [(a, x)])) (JObj [(b, y)])"
    by (simp add: load_save)
  from A show "let s2 = save h (save h s (JObj [(a, x)])) (JObj [(b, y)])
         in getProp (load h s2) a = Some x \<and> getProp (load h s2) b = Some y
            \<and> (\<forall>k. k \<noteq> a \<and> k \<noteq> b \<longrightarrow> getProp (load h s2) k = getProp (load h s) k)"
    by (simp add: Let_def 2 getProp_spread_single)
next
  assume A: "roundtrips h (spread (load h s) (JObj [(a, x)]))
      \<and> roundtrips h (spread (spread (load h s) (JObj [(a, x)])) (JObj [(a, x')]))"
  then have 1: "load h (save h s (JObj [(a, x)])) = spread (load h s) (JObj [(a, x)])"
    by (simp add: load_save)
  with A have 2: "load h (save h (save h s (JObj [(a, x)])) (JObj [(a, x')]))
      = spread (spread (load h s) (JObj [(a, x)])) (JObj [(a, x')])"
    by (simp add: load_save)
  show "let s2 = save h (save h s (JObj [(a, x)])) (JObj [(a, x')])
         in getProp (load h s2) a = Some x'
            \<and> (\<forall>k. k \<noteq> a \<longrightarrow> getProp (load h s2) k = getProp (load h s) k)"
    by (simp add: Let_def 2 getProp_spread_single)
qed

lemma load_empty_world: "load h empty_world = JObj []"
  by (simp add: load_def empty_world_def)

lemma toy_roundtrips_asha: "roundtrips toy_host (JObj [(''personalDetails'', asha)])"
  by (simp add: roundtrips_def toy_host_def toy_stringify_def toy_docs_def asha_def ravi_def
      empty_text_def asha_text_def ravi_text_def both_text_def null_text_def)

lemma toy_roundtrips_ravi: "roundtrips toy_host (JObj [(''personalDetails'', ravi)])"
  by (simp add: roundtrips_def toy_host_def toy_stringify_def toy_docs_def asha_def ravi_def
      empty_text_def asha_text_def ravi_text_def both_text_def null_text_def)

lemma toy_roundtrips_both:
  "roundtrips toy_host (JObj [(''personalDetails'', asha), (''incomeDetails'', JObj [])])"
  by (simp add: roundtrips_def toy_host_def toy_stringify_def toy_docs_def asha_def ravi_def
      empty_text_def asha_text_def ravi_text_def both_text_def null_text_def)

lemma toy_roundtrips_null: "roundtrips toy_host (JObj [(''personalDetails'', JNull)])"
  by (simp add: roundtrips_def toy_host_def toy_stringify_def toy_docs_def asha_def ravi_def
      empty_text_def asha_text_def ravi_text_def both_text_def null_text_def)

lemma spread_empty_single: "spread (JObj []) (JObj [(a, x)]) = JObj [(a, x)]"
  by (simp add: spread_def assign_def)

theorem save_shallow_merge_witness:
  "''personalDetails'' \<noteq> ''incomeDetails''
   \<and> roundtrips toy_host (spread (load toy_host empty_world) (JObj [(''personalDetails'', asha)]))
   \<and> roundtrips toy_host
        (spread (spread (load toy_host empty_world) (JObj [(''personalDetails'', asha)]))
           (JObj [(''incomeDetails'', JObj [])]))
   \<and> roundtrips toy_host
        (spread (spread (load toy_host empty_world) (JObj [(''personalDetails'', asha)]))
           (JObj [(''personalDetails'', ravi)]))
   \<and> getProp (load toy_host
         (save toy_host (save toy_host empty_world (JObj [(''personalDetails'', asha)]))
            (JObj [(''incomeDetails'', JObj [])]))) ''personalDetails'' = Some asha
   \<and> getProp (load toy_host
         (save toy_host (save toy_host empty_world (JObj [(''personalDetails'', asha)]))
            (JObj [(''incomeDetails'', JObj [])]))) ''incomeDetails'' = Some (JObj [])
   \<and> getProp (load toy_host
         (save toy_host (save toy_host empty_world (JObj [(''personalDetails'', asha)]))
            (JObj [(''personalDetails'', ravi)]))) ''personalDetails'' = Some ravi"
proof -
  have r1: "roundtrips toy_host (spread (load toy_host empty_world) (JObj [(''personalDetails'', asha)]))"
    by (simp add: load_empty_world spread_empty_single toy_roundtrips_asha)
  have r2: "roundtrips toy_host
        (spread (spread (load toy_host empty_world) (JObj [(''personalDetails'', asha)]))
           (JObj [(''incomeDetails'', JObj [])]))"
    by (simp add: load_empty_world spread_empty_single toy_roundtrips_both spread_def assign_def)
  have r3: "roundtrips toy_host
        (spread (spread (load toy_host empty_world) (JObj [(''personalDetails'', asha)]))
           (JObj [(''personalDetails'', ravi)]))"
    by (simp add: load_empty_world spread_empty_single toy_roundtrips_ravi spread_def assign_def)
  have ne: "''personalDetails'' \<noteq> ''incomeDetails''"
    by simp
  from save_shallow_merge [where a = "''personalDetails''" and b = "''incomeDetails''"
      and h = toy_host and s = empty_world and x = asha and y = "JObj []" and x' = ravi]
    ne r1 r2 r3
  show ?thesis
    by (simp add: Let_def)
qed

subsection \<open>Import\<close>

text \<open>
  C7. When the text does not parse, \<open>import\<close> returns false and leaves the state as it
  was: \<open>load\<close> returns what it returned before and no subscriber is called. When the text
  parses, \<open>import\<close> is \<open>save\<close> of the parsed value (a merge over what is stored) and
  returns true.
\<close>

theorem import_result:
  "(JSON_parse h jsonData = None
      \<longrightarrow> import h s jsonData = (s, False)
          \<and> load h (fst (import h s jsonData)) = load h s
          \<and> notified (fst (import h s jsonData)) = notified s)
   \<and> (JSON_parse h jsonData = Some data
      \<longrightarrow> import h s jsonData = (save h s data, True))"
  by (simp add: import_def)

lemma toy_parse_oops: "JSON_parse toy_host ''{oops'' = None"
  by (simp add: toy_host_def toy_docs_def empty_text_def asha_text_def ravi_text_def both_text_def null_text_def)

lemma toy_parse_null:
  "JSON_parse toy_host null_text = Some (JObj [(''personalDetails'', JNull)])"
  by (simp add: toy_host_def toy_docs_def empty_text_def asha_text_def ravi_text_def both_text_def null_text_def)

theorem import_result_witness:
  "JSON_parse toy_host ''{oops'' = None
   \<and> import toy_host watched_world ''{oops'' = (watched_world, False)
   \<and> JSON_parse toy_host null_text = Some (JObj [(''personalDetails'', JNull)])
   \<and> import toy_host watched_world null_text
       = (save toy_host watched_world (JObj [(''personalDetails'', JNull)]), True)"
  using import_result [where h = toy_host and jsonData = "''{oops''" and s = watched_world]
    import_result [where h = toy_host and jsonData = null_text
      and data = "JObj [(''personalDetails'', JNull)]" and s = watched_world]
  by (simp add: toy_parse_oops toy_parse_null)

subsection \<open>Completion status\<close>

lemma flag_JObj:
  "flag (JObj kvs) k = (\<exists>v. map_of kvs k = Some v \<and> truthy v)"
  by (simp add: flag_def getProp_def split: option.splits)

lemma load_absent: "localStorage s STORAGE_KEY = None \<Longrightarrow> load h s = JObj []"
  by (simp add: load_def)

lemma null_world_load: "load toy_host null_world = JObj [(''personalDetails'', JNull)]"
proof -
  have "roundtrips toy_host (spread (load toy_host empty_world) (JObj [(''personalDetails'', JNull)]))"
    by (simp add: load_empty_world spread_empty_single toy_roundtrips_null)
  then have "load toy_host (save toy_host empty_world (JObj [(''personalDetails'', JNull)]))
      = spread (load toy_host empty_world) (JObj [(''personalDetails'', JNull)])"
    by (rule load_save)
  then show ?thesis
    by (simp add: null_world_def import_def toy_parse_null load_empty_world spread_empty_single)
qed

text \<open>
  C8, as the claim states it, fails: after the import of the text \<open>null_text\<close> the key
  \<open>personalDetails\<close> is present in the persisted snapshot, and its flag is false.
\<close>

theorem completionStatus_presence_counterexample:
  "getProp (load toy_host null_world) ''personalDetails'' = Some JNull
   \<and> getCompletionStatus toy_host null_world
       = Inr \<lparr>personalDetails = False, incomeDetails = False, deductions = False,
              taxSummary = False\<rparr>"
  by (simp add: getCompletionStatus_def null_world_load getProp_def flag_def)

text \<open>
  C8, amended. For a persisted snapshot that is an object, the flag of each of the four
  sections is true iff the key is present with a value that JavaScript takes for true
  (any object or array, a non-empty string, a non-zero number, \<open>true\<close>). On an empty store
  the four flags are false, and after saving one section with such a value to an empty
  store that section's flag alone is true.
\<close>

theorem completionStatus_truthy:
  "(load h s = JObj kvs
      \<longrightarrow> getCompletionStatus h s =
            Inr \<lparr>personalDetails = (\<exists>v. map_of kvs ''personalDetails'' = Some v \<and> truthy v),
                 incomeDetails = (\<exists>v. map_of kvs ''incomeDetails'' = Some v \<and> truthy v),
                 deductions = (\<exists>v. map_of kvs ''deductions'' = Some v \<and> truthy v),
                 taxSummary = (\<exists>v. map_of kvs ''taxSummary'' = Some v \<and> truthy v)\<rparr>)
   \<and> (localStorage s STORAGE_KEY = None
      \<longrightarrow> getCompletionStatus h s =
            Inr \<lparr>personalDetails = False, incomeDetails = False, deductions = False,
                 taxSummary = False\<rparr>)
   \<and> (localStorage s STORAGE_KEY = None \<and> truthy x \<and> roundtrips h (JObj [(k, x)])
      \<longrightarrow> getCompletionStatus h (save h s (JObj [(k, x)])) =
            Inr \<lparr>personalDetails = (k = ''personalDetails''),
                 incomeDetails = (k = ''incomeDetails''),
                 deductions = (k = ''deductions''),
                 taxSummary = (k = ''taxSummary'')\<rparr>)"
proof (intro conjI impI)
  assume "load h s = JObj kvs"
  then show "getCompletionStatus h s =
            Inr \<lparr>personalDetails = (\<exists>v. map_of kvs ''personalDetails'' = Some v \<and> truthy v),
                 incomeDetails = (\<exists>v. map_of kvs ''incomeDetails'' = Some v \<and> truthy v),
                 deductions = (\<exists>v. map_of kvs ''deductions'' = Some v \<and> truthy v),
                 taxSummary = (\<exists>v. map_of kvs ''taxSummary'' = Some v \<and> truthy v)\<rparr>"
    by (simp add: getCompletionStatus_def flag_JObj)
next
  assume "localStorage s STORAGE_KEY = None"
  then have "load h s = JObj []"
    by (rule load_absent)
  then show "getCompletionStatus h s =
            Inr \<lparr>personalDetails = False, incomeDetails = False, deductions = False,
                 taxSummary = False\<rparr>"
    by (simp add: getCompletionStatus_def flag_JObj)
next
  assume A: "localStorage s STORAGE_KEY = None \<and> truthy x \<and> roundtrips h (JObj [(k, x)])"
  then have e: "load h s = JObj []"
    by (simp add: load_absent)
  with A have "load h (save h s (JObj [(k, x)])) = JObj [(k, x)]"
    by (simp add: load_save spread_empty_single)
  with A show "getCompletionStatus h (save h s (JObj [(k, x)])) =
            Inr \<lparr>personalDetails = (k = ''personalDetails''),
                 incomeDetails = (k = ''incomeDetails''),
                 deductions = (k = ''deductions''),
                 taxSummary = (k = ''taxSummary'')\<rparr>"
    by (auto simp: getCompletionStatus_def flag_JObj)
qed

theorem completionStatus_truthy_witness:
  "load toy_host null_world = JObj [(''personalDetails'', JNull)]
   \<and> localStorage empty_world STORAGE_KEY = None
   \<and> truthy asha
   \<and> roundtrips toy_host (JObj [(''personalDetails'', asha)])
   \<and> getCompletionStatus toy_host null_world =
       Inr \<lparr>personalDetails = False, incomeDetails = False, deductions = False,
            taxSummary = False\<rparr>
   \<and> getCompletionStatus toy_host empty_world =
       Inr \<lparr>personalDetails = False, incomeDetails = False, deductions = False,
            taxSummary = False\<rparr>
   \<and> getCompletionStatus toy_host (save toy_host empty_world (JObj [(''personalDetails'', asha)])) =
       Inr \<lparr>personalDetails = True, incomeDetails = False, deductions = False,
            taxSummary = False\<rparr>"
proof -
  have a: "localStorage empty_world STORAGE_KEY = None"
    by (simp add: empty_world_def)
  have t: "truthy asha"
    by (simp add: asha_def)
  from completionStatus_truthy [where h = toy_host and s = null_world
      and kvs = "[(''personalDetails'', JNull)]" and x = asha and k = "''personalDetails''"]
    completionStatus_truthy [where h = toy_host and s = empty_world and kvs = "[]"
      and x = asha and k = "''personalDetails''"]
    null_world_load a t toy_roundtrips_asha
  show ?thesis
    by simp
qed

subsection \<open>A rejected write\<close>

text \<open>
  C9, as the claim states it, fails: with a store that rejects the write and one
  subscriber, \<open>save\<close> calls no subscriber at all.
\<close>

theorem save_rejected_counterexample:
  "\<not> setItem_accepts full_host
       (JSON_stringify full_host
          (spread (load full_host watched_world) (JObj [(''personalDetails'', asha)])))
   \<and> listeners watched_world = [1]
   \<and> notified (save full_host watched_world (JObj [(''personalDetails'', asha)])) = []"
  by (simp add: full_host_def save_def Let_def watched_world_def subscribe_def empty_world_def)

text \<open>
  C9, amended. When the substrate rejects the write, \<open>save\<close> returns normally and changes
  nothing: the persisted state is as before and no subscriber is called. A subscriber is
  called only after the write has been accepted, with the merged snapshot.
\<close>

theorem save_rejected_silently:
  "(\<not> setItem_accepts h (JSON_stringify h (spread (load h s) data))
      \<longrightarrow> save h s data = s)
   \<and> (setItem_accepts h (JSON_stringify h (spread (load h s) data))
      \<longrightarrow> localStorage (save h s data) STORAGE_KEY
            = Some (JSON_stringify h (spread (load h s) data))
          \<and> notified (save h s data)
            = notified s @ map (\<lambda>callback. (callback, spread (load h s) data)) (listeners s))"
  by (simp add: save_def Let_def notifyListeners_def)

theorem save_rejected_silently_witness:
  "\<not> setItem_accepts full_host
       (JSON_stringify full_host
          (spread (load full_host watched_world) (JObj [(''personalDetails'', asha)])))
   \<and> save full_host watched_world (JObj [(''personalDetails'', asha)]) = watched_world
   \<and> setItem_accepts toy_host
       (JSON_stringify toy_host
          (spread (load toy_host watched_world) (JObj [(''personalDetails'', asha)])))
   \<and> notified (save toy_host watched_world (JObj [(''personalDetails'', asha)]))
       = [(1, JObj [(''personalDetails'', asha)])]"
proof -
  have r: "\<not> setItem_accepts full_host
       (JSON_stringify full_host
          (spread (load full_host watched_world) (JObj [(''personalDetails'', asha)])))"
    by (simp add: full_host_def)
  have a: "setItem_accepts toy_host
       (JSON_stringify toy_host
          (spread (load toy_host watched_world) (JObj [(''personalDetails'', asha)])))"
    by (simp add: toy_host_def)
  have l: "load toy_host watched_world = JObj []"
    by (simp add: load_def watched_world_def subscribe_def empty_world_def)
  have w: "listeners watched_world = [1]" "notified watched_world = []"
    by (simp_all add: watched_world_def subscribe_def empty_world_def)
  from save_rejected_silently [where h = full_host and s = watched_world
      and data = "JObj [(''personalDetails'', asha)]"]
    save_rejected_silently [where h = toy_host and s = watched_world
      and data = "JObj [(''personalDetails'', asha)]"]
    r a
  show ?thesis
    by (simp add: l w spread_empty_single)
qed

subsection \<open>Debounced saving\<close>

lemma autoSave_timers:
  assumes "timers_ok s"
  shows "timers (autoSave s p) = [(nextHandle s, clock s + AUTO_SAVE_INTERVAL, p)]"
proof (cases "autoSaveTimer s")
  case None
  with assms have "timers s = []"
    by (cases "timers s") (simp_all add: timers_ok_def)
  with None show ?thesis
    by (simp add: autoSave_def setTimeout_def)
next
  case (Some handle)
  with assms have "filter (\<lambda>t. fst t \<noteq> handle) (timers s) = []"
    by (auto simp: timers_ok_def list_all_iff filter_empty_conv)
  with Some show ?thesis
    by (simp add: autoSave_def setTimeout_def clearTimeout_def)
qed

lemma autoSave_fields:
  "localStorage (autoSave s p) = localStorage s"
  "listeners (autoSave s p) = listeners s"
  "notified (autoSave s p) = notified s"
  "clock (autoSave s p) = clock s"
  "nextHandle (autoSave s p) = Suc (nextHandle s)"
  "autoSaveTimer (autoSave s p) = Some (nextHandle s)"
  by (simp_all add: autoSave_def setTimeout_def clearTimeout_def split: option.splits)

lemma timers_ok_autoSave:
  assumes "timers_ok s"
  shows "timers_ok (autoSave s p)"
  by (simp add: timers_ok_def autoSave_timers [OF assms] autoSave_fields)

lemma elapse_pending:
  assumes "timers s = [(n, t, p)]" and "clock s + d < t"
  shows "elapse h d s = s\<lparr>clock := clock s + d\<rparr>"
  using assms by (simp add: elapse_def is_due_def)

lemma elapse_due:
  assumes "timers s = [(n, t, p)]" and "t \<le> clock s + d"
  shows "elapse h d s = save h (s\<lparr>timers := [], clock := clock s + d\<rparr>) p"
  using assms by (simp add: elapse_def is_due_def)

lemma save_same_store:
  assumes "localStorage s' = localStorage s" and "listeners s' = listeners s"
    and "notified s' = notified s"
  shows "localStorage (save h s' p) = localStorage (save h s p)"
    and "notified (save h s' p) = notified (save h s p)"
  using assms by (simp_all add: save_def Let_def load_def notifyListeners_def)

lemma save_timers: "timers (save h s p) = timers s"
  by (simp add: save_def Let_def notifyListeners_def)

lemma save_autoSaveTimer: "autoSaveTimer (save h s p) = autoSaveTimer s"
  by (simp add: save_def Let_def notifyListeners_def)

lemma timers_ok_save: "timers_ok (save h s p) = timers_ok s"
  by (simp add: timers_ok_def save_timers save_autoSaveTimer)

lemma timers_ok_callbacks:
  "timers_ok (foldl (\<lambda>w tm. save h w (snd (snd tm))) s due) = timers_ok s"
  by (induction due arbitrary: s) (simp_all add: timers_ok_save)

lemma timers_ok_elapse:
  assumes "timers_ok s"
  shows "timers_ok (elapse h d s)"
  using assms by (simp add: elapse_def Let_def timers_ok_callbacks) (simp add: timers_ok_def list_all_iff)

text \<open>
  C6. \<open>autoSave(p1)\<close>, then \<open>autoSave(p2)\<close> less than 5000 ms later, then nothing but the
  passing of time. Before the second call nothing is written; the second call leaves one
  pending timeout, the one of \<open>p2\<close>; as long as less than 5000 ms have passed since,
  nothing is written; and once they have, the store and the calls made to the subscribers
  are those of the one \<open>save(p2)\<close> on the state before the first call: \<open>p1\<close> is written
  nowhere and is not merged into \<open>p2\<close>.
\<close>

theorem autoSave_debounce:
  "timers_ok s \<and> d < AUTO_SAVE_INTERVAL
   \<longrightarrow> (let s1 = autoSave s p1;
            s2 = elapse h d s1;
            s3 = autoSave s2 p2;
            s4 = elapse h e s3
        in localStorage s2 = localStorage s \<and> notified s2 = notified s
           \<and> timers s3 = [(Suc (nextHandle s), clock s + d + AUTO_SAVE_INTERVAL, p2)]
           \<and> (e < AUTO_SAVE_INTERVAL
                \<longrightarrow> localStorage s4 = localStorage s \<and> notified s4 = notified s)
           \<and> (AUTO_SAVE_INTERVAL \<le> e
                \<longrightarrow> localStorage s4 = localStorage (save h s p2)
                    \<and> notified s4 = notified (save h s p2)
                    \<and> timers s4 = []))"
proof (intro impI)
  assume A: "timers_ok s \<and> d < AUTO_SAVE_INTERVAL"
  define s1 where "s1 = autoSave s p1"
  define s2 where "s2 = elapse h d s1"
  define s3 where "s3 = autoSave s2 p2"
  define s4 where "s4 = elapse h e s3"
  have t1: "timers s1 = [(nextHandle s, clock s + AUTO_SAVE_INTERVAL, p1)]"
    using A by (simp add: s1_def autoSave_timers)
  have ok1: "timers_ok s1"
    using A by (simp add: s1_def timers_ok_autoSave)
  have "clock s1 + d < clock s + AUTO_SAVE_INTERVAL"
    using A by (simp add: s1_def autoSave_fields)
  with t1 have e2: "s2 = s1\<lparr>clock := clock s1 + d\<rparr>"
    unfolding s2_def by (rule elapse_pending)
  have f2: "localStorage s2 = localStorage s" "notified s2 = notified s"
    "listeners s2 = listeners s" "clock s2 = clock s + d" "nextHandle s2 = Suc (nextHandle s)"
    by (simp_all add: e2 s1_def autoSave_fields)
  have ok2: "timers_ok s2"
    using ok1 by (simp add: e2 timers_ok_def)
  have t3: "timers s3 = [(Suc (nextHandle s), clock s + d + AUTO_SAVE_INTERVAL, p2)]"
    using ok2 by (simp add: s3_def autoSave_timers f2)
  have f3: "localStorage s3 = localStorage s" "notified s3 = notified s"
    "listeners s3 = listeners s" "clock s3 = clock s + d"
    by (simp_all add: s3_def autoSave_fields f2)
  have early: "localStorage s4 = localStorage s \<and> notified s4 = notified s"
    if "e < AUTO_SAVE_INTERVAL"
  proof -
    from that have "clock s3 + e < clock s + d + AUTO_SAVE_INTERVAL"
      by (simp add: f3)
    with t3 have "s4 = s3\<lparr>clock := clock s3 + e\<rparr>"
      unfolding s4_def by (rule elapse_pending)
    then show ?thesis
      by (simp add: f3)
  qed
  have late: "localStorage s4 = localStorage (save h s p2)
      \<and> notified s4 = notified (save h s p2) \<and> timers s4 = []"
    if "AUTO_SAVE_INTERVAL \<le> e"
  proof -
    from that have "clock s + d + AUTO_SAVE_INTERVAL \<le> clock s3 + e"
      by (simp add: f3)
    with t3 have e4: "s4 = save h (s3\<lparr>timers := [], clock := clock s3 + e\<rparr>) p2"
      unfolding s4_def by (rule elapse_due)
    have "localStorage s4 = localStorage (save h s p2)"
      and "notified s4 = notified (save h s p2)"
      unfolding e4 by (rule save_same_store; simp add: f3)+
    then show ?thesis
      by (simp add: e4 save_timers)
  qed
  from f2 t3 early late show "let s1 = autoSave s p1;
            s2 = elapse h d s1;
            s3 = autoSave s2 p2;
            s4 = elapse h e s3
        in localStorage s2 = localStorage s \<and> notified s2 = notified s
           \<and> timers s3 = [(Suc (nextHandle s), clock s + d + AUTO_SAVE_INTERVAL, p2)]
           \<and> (e < AUTO_SAVE_INTERVAL
                \<longrightarrow> localStorage s4 = localStorage s \<and> notified s4 = notified s)
           \<and> (AUTO_SAVE_INTERVAL \<le> e
                \<longrightarrow> localStorage s4 = localStorage (save h s p2)
                    \<and> notified s4 = notified (save h s p2)
                    \<and> timers s4 = [])"
    by (simp add: Let_def s1_def s2_def s3_def s4_def)
qed

lemma watched_world_fields:
  "localStorage watched_world STORAGE_KEY = None" "listeners watched_world = [1]"
  "notified watched_world = []" "timers watched_world = []"
  by (simp_all add: watched_world_def subscribe_def empty_world_def)

lemma toy_accepts: "setItem_accepts toy_host text"
  by (simp add: toy_host_def)

lemma toy_stringify_ravi:
  "JSON_stringify toy_host (JObj [(''personalDetails'', ravi)])
     = ravi_text"
  by (simp add: toy_host_def toy_stringify_def toy_docs_def asha_def ravi_def)

theorem autoSave_debounce_witness:
  "timers_ok watched_world \<and> (1000::nat) < AUTO_SAVE_INTERVAL \<and> AUTO_SAVE_INTERVAL \<le> 5000
   \<and> localStorage
        (elapse toy_host 5000
           (autoSave
              (elapse toy_host 1000 (autoSave watched_world (JObj [(''personalDetails'', asha)])))
              (JObj [(''personalDetails'', ravi)]))) STORAGE_KEY
       = Some ravi_text
   \<and> notified
        (elapse toy_host 5000
           (autoSave
              (elapse toy_host 1000 (autoSave watched_world (JObj [(''personalDetails'', asha)])))
              (JObj [(''personalDetails'', ravi)])))
       = [(1, JObj [(''personalDetails'', ravi)])]"
proof -
  have ok: "timers_ok watched_world"
    by (simp add: timers_ok_def watched_world_fields)
  have d: "(1000::nat) < AUTO_SAVE_INTERVAL" and e: "AUTO_SAVE_INTERVAL \<le> 5000"
    by (simp_all add: AUTO_SAVE_INTERVAL_def)
  have l: "load toy_host watched_world = JObj []"
    by (simp add: load_absent watched_world_fields)
  have sv: "localStorage (save toy_host watched_world (JObj [(''personalDetails'', ravi)])) STORAGE_KEY
        = Some ravi_text"
    "notified (save toy_host watched_world (JObj [(''personalDetails'', ravi)]))
        = [(1, JObj [(''personalDetails'', ravi)])]"
    by (simp_all add: save_def Let_def l spread_empty_single notifyListeners_def
        watched_world_fields toy_accepts toy_stringify_ravi)
  from autoSave_debounce [where s = watched_world and d = 1000 and e = 5000 and h = toy_host
      and ?p1.0 = "JObj [(''personalDetails'', asha)]" and ?p2.0 = "JObj [(''personalDetails'', ravi)]"]
    ok d e
  show ?thesis
    by (simp add: Let_def sv)
qed

end
